theory Spec2Isabelle
  imports Complex_Main "HOL-Library.Sublist" "HOL-Library.Word"
begin

unbundle bit_operations_syntax

section \<open>Data model (types.ts and the refs of CallPage)\<close>

datatype CallStatus = IDLE | CONNECTING | ACTIVE | ERROR | ENDED

datatype Speaker = User | Ai | System

text \<open>
  \<open>TranscriptMessage\<close> of types.ts. The field \<open>text\<close> is written \<open>text'\<close>.
  Strings are lists of code units below 256.
\<close>

record TranscriptMessage =
  speaker :: Speaker
  text' :: string

datatype js_error = TypeError | DecodeError | Rejection | NotAllowedError | ConstructorError

text \<open>
  The state of a session promise (\<open>Promise<LiveSession>\<close>) and the continuations
  registered on it while it is pending: the \<open>then\<close> callback of \<open>onaudioprocess\<close>
  (with the blob it has captured) and the rest of \<open>endCall\<close> after its \<open>await\<close>.
\<close>

datatype promise_state = Pending | Fulfilled | Rejected

datatype continuation = SendBlob "8 word list" | EndCallResume

record promise =
  settled :: promise_state
  waiting :: "continuation list"

text \<open>
  Calls on objects of the browser and of the SDK, in the order the program makes them.
  Resources (streams, audio contexts, nodes, sessions) are named by numbers; a session
  is named by the number of its promise.
\<close>

datatype effect =
    GetUserMedia
  | TrackStop nat
  | Disconnect nat
  | ContextClose nat
  | SessionClose nat
  | SendRealtimeInput nat "8 word list"
  | SourceStart nat real real
  | SourceStop nat
  | ConsoleError

text \<open>
  The state hooks and refs of \<open>CallPage\<close> (lines 59 to 73), then the world outside:
  the session promises created so far, the next unused resource number and the log of
  external calls. \<open>audioSources\<close> is a JavaScript \<open>Set\<close>: a list in insertion order
  without duplicates.
\<close>

record call_state =
  callStatus :: CallStatus
  transcript :: "TranscriptMessage list"
  errorMessage :: "string option"
  sessionPromiseRef :: "nat option"
  streamRef :: "nat option"
  audioContextRef :: "nat option"
  outputAudioContextRef :: "nat option"
  scriptProcessorRef :: "nat option"
  mediaStreamSourceRef :: "nat option"
  inputTranscriptionRef :: string
  outputTranscriptionRef :: string
  nextStartTimeRef :: real
  audioSources :: "nat list"
  promises :: "promise list"
  fresh :: nat
  effects :: "effect list"

definition initial_state :: call_state where
  "initial_state =
     \<lparr>callStatus = IDLE, transcript = [], errorMessage = None,
      sessionPromiseRef = None, streamRef = None, audioContextRef = None,
      outputAudioContextRef = None, scriptProcessorRef = None,
      mediaStreamSourceRef = None,
      inputTranscriptionRef = [], outputTranscriptionRef = [],
      nextStartTimeRef = 0, audioSources = [],
      promises = [], fresh = 0, effects = []\<rparr>"

definition emit :: "effect \<Rightarrow> call_state \<Rightarrow> call_state" where
  "emit e s = s\<lparr>effects := effects s @ [e]\<rparr>"

text \<open>\<open>ref.current?.m()\<close>: the call is made only when the ref is not null.\<close>

definition opt_call :: "(nat \<Rightarrow> effect) \<Rightarrow> nat option \<Rightarrow> call_state \<Rightarrow> call_state" where
  "opt_call f r s = (case r of None \<Rightarrow> s | Some x \<Rightarrow> emit (f x) s)"

section \<open>Session lifecycle (CallPage, lines 75 to 222)\<close>

text \<open>\<open>cleanup\<close>, lines 75 to 88.\<close>

definition cleanup :: "call_state \<Rightarrow> call_state" where
  "cleanup s =
     (let s1 = opt_call TrackStop (streamRef s) s;
          s2 = opt_call Disconnect (scriptProcessorRef s1) s1;
          s3 = opt_call Disconnect (mediaStreamSourceRef s2) s2;
          s4 = opt_call ContextClose (audioContextRef s3) s3;
          s5 = opt_call ContextClose (outputAudioContextRef s4) s4
      in s5\<lparr>streamRef := None, scriptProcessorRef := None,
            mediaStreamSourceRef := None, audioContextRef := None,
            outputAudioContextRef := None, sessionPromiseRef := None\<rparr>)"

text \<open>
  \<open>endCall\<close>, lines 90 to 101. \<open>await_session\<close> is the \<open>await\<close> of line 94 on a
  settled promise: it throws when the promise is rejected. \<open>endCall_resume\<close> is the
  function from line 94 on, with the promise \<open>p\<close> it has read at line 92; the
  \<open>try\<close>/\<open>catch\<close> turns the exception into a console message. When the promise is
  still pending the rest of \<open>endCall\<close> waits on it until \<open>settle\<close> runs it.
\<close>

definition await_session :: "promise_state \<Rightarrow> js_error + unit" where
  "await_session st = (if st = Rejected then Inl Rejection else Inr ())"

definition endCall_resume :: "nat \<Rightarrow> promise_state \<Rightarrow> call_state \<Rightarrow> js_error + call_state" where
  "endCall_resume p st s =
     (let s1 = (case await_session st of
                  Inl e \<Rightarrow> emit ConsoleError s
                | Inr _ \<Rightarrow> emit (SessionClose p) s)
      in Inr (cleanup s1))"

definition endCall :: "call_state \<Rightarrow> js_error + call_state" where
  "endCall s =
     (let s1 = s\<lparr>callStatus := ENDED\<rparr>
      in case sessionPromiseRef s1 of
           None \<Rightarrow> Inr (cleanup s1)
         | Some p \<Rightarrow>
             if p < length (promises s1) then
               (case settled (promises s1 ! p) of
                  Pending \<Rightarrow>
                    Inr (s1\<lparr>promises := (promises s1)
                            [p := (promises s1 ! p)\<lparr>waiting := waiting (promises s1 ! p) @ [EndCallResume]\<rparr>]\<rparr>)
                | st \<Rightarrow> endCall_resume p st s1)
             else Inr s1)"

text \<open>
  \<open>startCall\<close>, lines 103 to 222. The function is suspended at line 109 until
  \<open>getUserMedia\<close> settles, and other handlers run meanwhile (the End button is shown
  while the status is connecting). \<open>startCall_begin\<close> is lines 104 to 106 and
  \<open>startCall_suspend\<close> is the function up to the \<open>await\<close>, with the request made.
  \<open>startCall_resume\<close> is the rest: the argument \<open>gum\<close> is what \<open>getUserMedia\<close> has
  settled to, an exception or a stream; \<open>startCall_try\<close> is the \<open>try\<close> block from there
  on and \<open>startCall_catch\<close> the \<open>catch\<close> block. The constructors of the two audio
  contexts and of the SDK client may throw inside the \<open>try\<close> block: \<open>ctors\<close> says which
  one does, if any; what the block has assigned before the exception stays.
  \<open>live.connect\<close> returns a promise and does not throw.
\<close>

datatype ctor_outcome = NoThrow | InputContextThrows | OutputContextThrows | GenAIThrows

definition startCall_begin :: "call_state \<Rightarrow> call_state" where
  "startCall_begin s =
     s\<lparr>callStatus := CONNECTING,
       transcript := [\<lparr>speaker = System,
          text' = ''Starting your Korean lesson... Please allow microphone access.''\<rparr>],
       errorMessage := None\<rparr>"

definition startCall_suspend :: "call_state \<Rightarrow> call_state" where
  "startCall_suspend s = emit GetUserMedia (startCall_begin s)"

definition startCall_try ::
  "js_error + nat \<Rightarrow> ctor_outcome \<Rightarrow> call_state \<Rightarrow> js_error option \<times> call_state" where
  "startCall_try gum ctors s =
     (case gum of
        Inl e \<Rightarrow> (Some e, s)
      | Inr stream \<Rightarrow>
          (let s1 = s\<lparr>streamRef := Some stream\<rparr>
           in if ctors = InputContextThrows then (Some ConstructorError, s1)
              else
                (let s2 = s1\<lparr>audioContextRef := Some (fresh s1), fresh := fresh s1 + 1\<rparr>
                 in if ctors = OutputContextThrows then (Some ConstructorError, s2)
                    else
                      (let s3 = s2\<lparr>outputAudioContextRef := Some (fresh s2),
                                    fresh := fresh s2 + 1\<rparr>
                       in if ctors = GenAIThrows then (Some ConstructorError, s3)
                          else
                            (None,
                             s3\<lparr>sessionPromiseRef := Some (length (promises s3)),
                                promises := promises s3 @ [\<lparr>settled = Pending, waiting = []\<rparr>]\<rparr>)))))"

definition startCall_catch :: "call_state \<Rightarrow> call_state" where
  "startCall_catch s =
     cleanup ((emit ConsoleError s)
       \<lparr>errorMessage := Some ''Could not access microphone. Please check your browser permissions.'',
        callStatus := ERROR\<rparr>)"

definition startCall_resume :: "js_error + nat \<Rightarrow> ctor_outcome \<Rightarrow> call_state \<Rightarrow> call_state" where
  "startCall_resume gum ctors s =
     (case startCall_try gum ctors s of
        (Some e, s1) \<Rightarrow> startCall_catch s1
      | (None, s1) \<Rightarrow> s1)"

text \<open>
  \<open>startCall\<close> from the first line to the last when no other handler runs while
  \<open>getUserMedia\<close> is pending and no constructor throws.
\<close>

definition startCall :: "js_error + nat \<Rightarrow> call_state \<Rightarrow> call_state" where
  "startCall gum s = startCall_resume gum NoThrow (startCall_suspend s)"

text \<open>
  \<open>onopen\<close>, lines 131 to 151, with the \<open>stream\<close> its closure holds. The non-null
  assertion on \<open>audioContextRef.current\<close> is a \<open>TypeError\<close> when the ref is null; the
  status and the transcript are already set then.
\<close>

definition onopen :: "nat \<Rightarrow> call_state \<Rightarrow> js_error option \<times> call_state" where
  "onopen stream s =
     (let s1 = s\<lparr>callStatus := ACTIVE,
                 transcript := transcript s @ [\<lparr>speaker = System,
                    text' = ''Connection successful! You can start speaking now.''\<rparr>]\<rparr>
      in case audioContextRef s1 of
           None \<Rightarrow> (Some TypeError, s1)
         | Some ctx \<Rightarrow>
             (None, s1\<lparr>mediaStreamSourceRef := Some (fresh s1),
                       scriptProcessorRef := Some (fresh s1 + 1),
                       fresh := fresh s1 + 2\<rparr>))"

text \<open>\<open>onerror\<close>, lines 203 to 208, and \<open>onclose\<close>, lines 209 to 212.\<close>

definition onerror :: "string \<Rightarrow> call_state \<Rightarrow> call_state" where
  "onerror msg s =
     cleanup ((emit ConsoleError s)
       \<lparr>errorMessage := Some (''An error occurred: '' @ msg @ ''. Please try again.''),
        callStatus := ERROR\<rparr>)"

definition onclose :: "call_state \<Rightarrow> call_state" where
  "onclose s = cleanup (s\<lparr>callStatus := ENDED\<rparr>)"

section \<open>PCM codec (utils/audio)\<close>

text \<open>
  Modelled from the spec: the module \<open>utils/audio\<close> (\<open>createPcmBlob\<close>, \<open>decode\<close>,
  \<open>decodeAudioData\<close>) is imported by CallPage and is not among the sources. Section 4.1
  of the specification gives the encoder as \<open>round(clamp(s,-1,1) * 32767)\<close> written as
  little-endian 16-bit integers, and the decoder as reading little-endian 16-bit
  integers and dividing by 32768, an incomplete last sample being dropped. Samples are
  real numbers; \<open>round\<close> is \<open>\<lfloor>x + 1/2\<rfloor>\<close>, as \<open>Math.round\<close>. The base64 text layer is
  left out.
\<close>

definition clamp :: "real \<Rightarrow> real \<Rightarrow> real \<Rightarrow> real" where
  "clamp s lo hi = max lo (min hi s)"

definition encodeSample :: "real \<Rightarrow> 16 word" where
  "encodeSample s = word_of_int (round (clamp s (-1) 1 * 32767))"

definition le_bytes :: "16 word \<Rightarrow> 8 word list" where
  "le_bytes w = [ucast w, ucast (drop_bit 8 w)]"

definition encodePcm :: "real list \<Rightarrow> 8 word list" where
  "encodePcm samples = concat (map (\<lambda>s. le_bytes (encodeSample s)) samples)"

fun le_words :: "8 word list \<Rightarrow> 16 word list" where
  "le_words (lo # hi # bs) = (ucast lo OR push_bit 8 (ucast hi)) # le_words bs"
| "le_words _ = []"

definition decodeSample :: "16 word \<Rightarrow> real" where
  "decodeSample w = real_of_int (sint w) / 32768"

definition decodePcm :: "8 word list \<Rightarrow> real list" where
  "decodePcm bytes = map decodeSample (le_words bytes)"

definition createPcmBlob :: "real list \<Rightarrow> 8 word list" where
  "createPcmBlob inputData = encodePcm inputData"

section \<open>Capture pipeline (CallPage, lines 141 to 147)\<close>

text \<open>
  \<open>onaudioprocess\<close>: \<open>sessionPromiseRef.current?.then(send)\<close>. With a null ref nothing
  happens. On a pending promise \<open>then\<close> registers the send; on a fulfilled promise the
  send runs; on a rejected promise it never runs.
\<close>

definition onaudioprocess :: "real list \<Rightarrow> call_state \<Rightarrow> call_state" where
  "onaudioprocess inputData s =
     (let pcmBlob = createPcmBlob inputData
      in case sessionPromiseRef s of
           None \<Rightarrow> s
         | Some p \<Rightarrow>
             if p < length (promises s) then
               (case settled (promises s ! p) of
                  Pending \<Rightarrow>
                    s\<lparr>promises := (promises s)
                        [p := (promises s ! p)\<lparr>waiting := waiting (promises s ! p) @ [SendBlob pcmBlob]\<rparr>]\<rparr>
                | Fulfilled \<Rightarrow> emit (SendRealtimeInput p pcmBlob) s
                | Rejected \<Rightarrow> s)
             else s)"

text \<open>
  The session promise \<open>p\<close> settles (the SDK fulfils or rejects it): the continuations
  waiting on it run in the order they were registered.
\<close>

fun run_continuations :: "nat \<Rightarrow> promise_state \<Rightarrow> continuation list \<Rightarrow> call_state \<Rightarrow> call_state" where
  "run_continuations p st [] s = s"
| "run_continuations p st (SendBlob b # ks) s =
     run_continuations p st ks (if st = Fulfilled then emit (SendRealtimeInput p b) s else s)"
| "run_continuations p st (EndCallResume # ks) s =
     run_continuations p st ks (case endCall_resume p st s of Inl e \<Rightarrow> s | Inr s' \<Rightarrow> s')"

definition settle :: "nat \<Rightarrow> promise_state \<Rightarrow> call_state \<Rightarrow> call_state" where
  "settle p st s =
     (if p < length (promises s) \<and> settled (promises s ! p) = Pending \<and> st \<noteq> Pending then
        run_continuations p st (waiting (promises s ! p))
          (s\<lparr>promises := (promises s)[p := \<lparr>settled = st, waiting = []\<rparr>]\<rparr>)
      else s)"

section \<open>Messages of the session (CallPage, lines 152 to 202)\<close>

text \<open>
  The parts of \<open>LiveServerMessage\<close> the handler reads. An optional field is an
  \<open>option\<close>; \<open>turnComplete\<close> and \<open>interrupted\<close> are only tested for truth, so an absent
  flag is \<open>False\<close>.
\<close>

datatype Transcription = Transcription (transcription_text: "string option")
datatype Blob = Blob (data: "string option")
datatype Part = Part (inlineData: "Blob option")
datatype Content = Content (parts: "Part list option")

record LiveServerContent =
  modelTurn :: "Content option"
  turnComplete :: bool
  interrupted :: bool
  inputTranscription :: "Transcription option"
  outputTranscription :: "Transcription option"

record LiveServerMessage =
  serverContent :: "LiveServerContent option"

record AudioBuffer =
  duration :: real

text \<open>\<open>acc += t.text\<close>: an undefined text is appended as the word \<open>undefined\<close>.\<close>

definition append_text :: "string \<Rightarrow> Transcription \<Rightarrow> string" where
  "append_text acc t =
     acc @ (case transcription_text t of None \<Rightarrow> ''undefined'' | Some x \<Rightarrow> x)"

text \<open>
  \<open>String.prototype.trim\<close> on code units below 256: tab, line feed, vertical tab, form
  feed, carriage return, space and no-break space.
\<close>

definition is_white_space :: "char \<Rightarrow> bool" where
  "is_white_space c = (of_char c \<in> {9, 10, 11, 12, 13, 32, 160 :: nat})"

definition trim :: "string \<Rightarrow> string" where
  "trim t = rev (dropWhile is_white_space (rev (dropWhile is_white_space t)))"

text \<open>Lines 153 to 158.\<close>

definition accumulate :: "LiveServerMessage \<Rightarrow> call_state \<Rightarrow> call_state" where
  "accumulate m s =
     (case serverContent m of
        None \<Rightarrow> s
      | Some sc \<Rightarrow>
          (let s1 = (case outputTranscription sc of
                       None \<Rightarrow> s
                     | Some t \<Rightarrow> s\<lparr>outputTranscriptionRef := append_text (outputTranscriptionRef s) t\<rparr>)
           in case inputTranscription sc of
                None \<Rightarrow> s1
              | Some t \<Rightarrow> s1\<lparr>inputTranscriptionRef := append_text (inputTranscriptionRef s1) t\<rparr>))"

text \<open>Lines 160 to 173, the body of \<open>if (turnComplete)\<close>.\<close>

definition flushTurn :: "call_state \<Rightarrow> call_state" where
  "flushTurn s =
     (let userText = trim (inputTranscriptionRef s);
          aiText = trim (outputTranscriptionRef s);
          newTranscript = transcript s;
          newTranscript = (if userText \<noteq> [] then newTranscript @ [\<lparr>speaker = User, text' = userText\<rparr>]
                           else newTranscript);
          newTranscript = (if aiText \<noteq> [] then newTranscript @ [\<lparr>speaker = Ai, text' = aiText\<rparr>]
                           else newTranscript)
      in s\<lparr>transcript := newTranscript,
           inputTranscriptionRef := [], outputTranscriptionRef := []\<rparr>)"

text \<open>
  Line 175: \<open>message.serverContent?.modelTurn?.parts[0]?.inlineData?.data\<close>. The index
  into \<open>parts\<close> is not guarded: a \<open>modelTurn\<close> without \<open>parts\<close> is a \<open>TypeError\<close>.
\<close>

definition base64Audio :: "LiveServerMessage \<Rightarrow> js_error + string option" where
  "base64Audio m =
     (case serverContent m of
        None \<Rightarrow> Inr None
      | Some sc \<Rightarrow>
          (case modelTurn sc of
             None \<Rightarrow> Inr None
           | Some c \<Rightarrow>
               (case parts c of
                  None \<Rightarrow> Inl TypeError
                | Some [] \<Rightarrow> Inr None
                | Some (p # ps) \<Rightarrow>
                    (case inlineData p of
                       None \<Rightarrow> Inr None
                     | Some b \<Rightarrow> Inr (data b)))))"

text \<open>The \<open>Set\<close> operations \<open>add\<close> and \<open>delete\<close>.\<close>

definition set_add :: "nat \<Rightarrow> nat list \<Rightarrow> nat list" where
  "set_add x xs = (if x \<in> set xs then xs else xs @ [x])"

definition set_delete :: "nat \<Rightarrow> nat list \<Rightarrow> nat list" where
  "set_delete x xs = removeAll x xs"

text \<open>
  Lines 179 to 192: the playback scheduler, with the clock reading \<open>currentTime\<close> and
  the decoded buffer. The new source node takes the next resource number.
\<close>

definition schedulePlayback :: "real \<Rightarrow> AudioBuffer \<Rightarrow> call_state \<Rightarrow> call_state" where
  "schedulePlayback currentTime audioBuffer s =
     (let s1 = s\<lparr>nextStartTimeRef := max (nextStartTimeRef s) currentTime\<rparr>;
          source = fresh s1;
          s2 = emit (SourceStart source (nextStartTimeRef s1) (duration audioBuffer))
                 (s1\<lparr>fresh := fresh s1 + 1\<rparr>)
      in s2\<lparr>nextStartTimeRef := nextStartTimeRef s2 + duration audioBuffer,
            audioSources := set_add source (audioSources s2)\<rparr>)"

text \<open>The \<open>ended\<close> listener of a source node, lines 186 to 188.\<close>

definition onended :: "nat \<Rightarrow> call_state \<Rightarrow> call_state" where
  "onended source s = s\<lparr>audioSources := set_delete source (audioSources s)\<rparr>"

text \<open>
  Lines 195 to 201, the body of \<open>if (interrupted)\<close>. The loop visits every member the
  set has when it starts: deleting the member just visited does not disturb the
  iteration.
\<close>

fun stop_sources :: "nat list \<Rightarrow> call_state \<Rightarrow> call_state" where
  "stop_sources [] s = s"
| "stop_sources (source # rest) s =
     stop_sources rest
       ((emit (SourceStop source) s)\<lparr>audioSources := set_delete source (audioSources s)\<rparr>)"

definition interrupt :: "call_state \<Rightarrow> call_state" where
  "interrupt s = (stop_sources (audioSources s) s)\<lparr>nextStartTimeRef := 0\<rparr>"

text \<open>
  \<open>onmessage\<close>. \<open>decodeAudio\<close> stands for \<open>decodeAudioData(decode(base64Audio), ...)\<close>,
  which may throw on malformed data; \<open>currentTime\<close> is the reading of the output clock
  at line 179. An exception ends the handler: what it has done so far stays, the rest is
  skipped. The handler is one step here: no other handler is placed between the
  \<open>await\<close> of line 177 and line 179.
\<close>

definition onmessage ::
  "(string \<Rightarrow> js_error + AudioBuffer) \<Rightarrow> real \<Rightarrow> LiveServerMessage \<Rightarrow> call_state
     \<Rightarrow> js_error option \<times> call_state" where
  "onmessage decodeAudio currentTime m s =
     (let s1 = accumulate m s;
          s2 = (if (case serverContent m of None \<Rightarrow> False | Some sc \<Rightarrow> turnComplete sc)
                then flushTurn s1 else s1)
      in case base64Audio m of
           Inl e \<Rightarrow> (Some e, s2)
         | Inr a \<Rightarrow>
             (case (if a \<noteq> None \<and> a \<noteq> Some [] \<and> outputAudioContextRef s2 \<noteq> None
                    then (case decodeAudio (the a) of
                            Inl e \<Rightarrow> Inl e
                          | Inr audioBuffer \<Rightarrow> Inr (schedulePlayback currentTime audioBuffer s2))
                    else Inr s2) of
                Inl e \<Rightarrow> (Some e, s2)
              | Inr s3 \<Rightarrow>
                  (None, if (case serverContent m of None \<Rightarrow> False | Some sc \<Rightarrow> interrupted sc)
                         then interrupt s3 else s3)))"

section \<open>Events of a call\<close>

text \<open>
  Everything that can happen to a mounted \<open>CallPage\<close>: the two buttons, the settling
  of \<open>getUserMedia\<close> (which resumes a suspended \<open>startCall\<close>), the four callbacks of
  the session, a capture buffer, the end of a source node, and the settling of a
  session promise. \<open>step\<close> runs the handler of one event, \<open>run\<close> a sequence of events.
\<close>

datatype event =
    StartCall
  | GetUserMediaSettled "js_error + nat" ctor_outcome
  | EndCall
  | Open nat
  | Message real LiveServerMessage
  | SessionError string
  | Close
  | AudioProcess "real list"
  | Ended nat
  | Settle nat promise_state

fun step :: "(string \<Rightarrow> js_error + AudioBuffer) \<Rightarrow> event \<Rightarrow> call_state \<Rightarrow> call_state" where
  "step dec StartCall s = startCall_suspend s"
| "step dec (GetUserMediaSettled gum ctors) s = startCall_resume gum ctors s"
| "step dec EndCall s = (case endCall s of Inl e \<Rightarrow> s | Inr s' \<Rightarrow> s')"
| "step dec (Open stream) s = snd (onopen stream s)"
| "step dec (Message currentTime m) s = snd (onmessage dec currentTime m s)"
| "step dec (SessionError msg) s = onerror msg s"
| "step dec Close s = onclose s"
| "step dec (AudioProcess inputData) s = onaudioprocess inputData s"
| "step dec (Ended source) s = onended source s"
| "step dec (Settle p st) s = settle p st s"

fun run :: "(string \<Rightarrow> js_error + AudioBuffer) \<Rightarrow> event list \<Rightarrow> call_state \<Rightarrow> call_state" where
  "run dec [] s = s"
| "run dec (e # es) s = run dec es (step dec e s)"

fun is_StartCall :: "event \<Rightarrow> bool" where
  "is_StartCall StartCall = True"
| "is_StartCall e = False"

text \<open>The start times and durations of the source nodes started, in the order of the log.\<close>

fun starts :: "effect list \<Rightarrow> (real \<times> real) list" where
  "starts [] = []"
| "starts (SourceStart source t d # es) = (t, d) # starts es"
| "starts (e # es) = starts es"

text \<open>
  What a message does to the playback scheduler: \<open>fragment_of\<close> gives the clock
  reading and the buffer of a message that reaches line 177 and decodes.
\<close>

definition has_interrupted :: "LiveServerMessage \<Rightarrow> bool" where
  "has_interrupted m = (case serverContent m of None \<Rightarrow> False | Some sc \<Rightarrow> interrupted sc)"

definition has_turnComplete :: "LiveServerMessage \<Rightarrow> bool" where
  "has_turnComplete m = (case serverContent m of None \<Rightarrow> False | Some sc \<Rightarrow> turnComplete sc)"

definition fragment_of ::
  "(string \<Rightarrow> js_error + AudioBuffer) \<Rightarrow> real \<times> LiveServerMessage \<Rightarrow> (real \<times> AudioBuffer) option" where
  "fragment_of dec tm =
     (case base64Audio (snd tm) of
        Inl e \<Rightarrow> None
      | Inr None \<Rightarrow> None
      | Inr (Some a) \<Rightarrow>
          if a = [] then None
          else (case dec a of Inl e \<Rightarrow> None | Inr b \<Rightarrow> Some (fst tm, b)))"

definition fragments ::
  "(string \<Rightarrow> js_error + AudioBuffer) \<Rightarrow> (real \<times> LiveServerMessage) list \<Rightarrow> (real \<times> AudioBuffer) list" where
  "fragments dec ms = List.map_filter (fragment_of dec) ms"

text \<open>The text a message adds to the accumulator of the user and to that of the AI.\<close>

definition input_delta :: "LiveServerMessage \<Rightarrow> string" where
  "input_delta m =
     (case serverContent m of
        None \<Rightarrow> []
      | Some sc \<Rightarrow> (case inputTranscription sc of None \<Rightarrow> [] | Some t \<Rightarrow> append_text [] t))"

definition output_delta :: "LiveServerMessage \<Rightarrow> string" where
  "output_delta m =
     (case serverContent m of
        None \<Rightarrow> []
      | Some sc \<Rightarrow> (case outputTranscription sc of None \<Rightarrow> [] | Some t \<Rightarrow> append_text [] t))"

section \<open>Subscription gate (App.tsx and SubscriptionPage.tsx)\<close>

text \<open>
  The state of \<open>App\<close> is \<open>isSubscribed\<close>; \<open>callPage\<close> is the state of the mounted
  \<open>CallPage\<close>, if any. A plan card carries the data of its plan and the callback
  \<open>onSelect\<close> of its button.
\<close>

record app_state =
  isSubscribed :: bool
  callPage :: "call_state option"

record plan =
  name :: string
  price :: string
  features :: "string list"
  isPopular :: bool

record SubscriptionPlanProps = plan +
  onSelect :: "app_state \<Rightarrow> app_state"

definition handleSubscribe :: "app_state \<Rightarrow> app_state" where
  "handleSubscribe s = s\<lparr>isSubscribed := True\<rparr>"

definition plans :: "plan list" where
  "plans =
     [\<lparr>name = ''Hangeul Starter'', price = ''9'',
       features = [''5 hours of AI call time'', ''Basic conversation topics'',
                   ''Standard response speed'', ''Email support''],
       isPopular = False\<rparr>,
      \<lparr>name = ''Seoul Speaker'', price = ''19'',
       features = [''20 hours of AI call time'', ''Expanded conversation topics'',
                   ''Faster response speed'', ''Priority email support'',
                   ''Access to new voices''],
       isPopular = True\<rparr>,
      \<lparr>name = ''Korean Master'', price = ''49'',
       features = [''Unlimited AI call time'', ''All conversation topics'',
                   ''Instant response speed'', ''24/7 dedicated support'',
                   ''Beta feature access''],
       isPopular = False\<rparr>]"

definition SubscriptionPage :: "(app_state \<Rightarrow> app_state) \<Rightarrow> SubscriptionPlanProps list" where
  "SubscriptionPage onSubscribe =
     map (\<lambda>plan. \<lparr>name = name plan, price = price plan, features = features plan,
                  isPopular = isPopular plan, onSelect = onSubscribe\<rparr>) plans"

datatype view = CallPageView | SubscriptionPageView "SubscriptionPlanProps list"

definition App :: "app_state \<Rightarrow> view" where
  "App s = (if isSubscribed s then CallPageView
            else SubscriptionPageView (SubscriptionPage handleSubscribe))"

text \<open>Rendering after a state change mounts \<open>CallPage\<close> in its initial state.\<close>

definition mount :: "app_state \<Rightarrow> app_state" where
  "mount s = (if isSubscribed s \<and> callPage s = None then s\<lparr>callPage := Some initial_state\<rparr> else s)"

text \<open>
  \<open>ChoosePlan i\<close> is a click on the button of the card at index \<open>i\<close>; there is no such
  button when the subscription page is not shown or \<open>i\<close> is out of range. \<open>CallEvent\<close>
  is an event of the call page, which exists only once mounted.
\<close>

datatype app_event = ChoosePlan nat | CallEvent event

fun app_step :: "(string \<Rightarrow> js_error + AudioBuffer) \<Rightarrow> app_event \<Rightarrow> app_state \<Rightarrow> app_state" where
  "app_step dec (ChoosePlan i) s =
     (case App s of
        CallPageView \<Rightarrow> s
      | SubscriptionPageView cards \<Rightarrow>
          if i < length cards then mount (onSelect (cards ! i) s) else s)"
| "app_step dec (CallEvent e) s =
     (case callPage s of
        None \<Rightarrow> s
      | Some c \<Rightarrow> s\<lparr>callPage := Some (step dec e c)\<rparr>)"

fun app_run :: "(string \<Rightarrow> js_error + AudioBuffer) \<Rightarrow> app_event list \<Rightarrow> app_state \<Rightarrow> app_state" where
  "app_run dec [] s = s"
| "app_run dec (e # es) s = app_run dec es (app_step dec e s)"

definition initial_app :: app_state where
  "initial_app = \<lparr>isSubscribed = False, callPage = None\<rparr>"

text \<open>
  The start time and duration the scheduler gives to each of a sequence of fragments
  (clock reading and buffer), from the cursor \<open>c\<close>: lines 180 and 191 repeated.
\<close>

fun schedule_times :: "real \<Rightarrow> (real \<times> AudioBuffer) list \<Rightarrow> (real \<times> real) list" where
  "schedule_times c [] = []"
| "schedule_times c ((t, b) # fs) =
     (max c t, duration b) # schedule_times (max c t + duration b) fs"

text \<open>The events of a sequence of messages, each with the clock reading of its handler.\<close>

definition messages :: "(real \<times> LiveServerMessage) list \<Rightarrow> event list" where
  "messages ms = map (\<lambda>tm. Message (fst tm) (snd tm)) ms"

text \<open>
  Messages with one thing in them: a piece of the transcription of the user or of the
  AI, the end of a turn, an audio fragment, an interruption.
\<close>

definition empty_content :: LiveServerContent where
  "empty_content =
     \<lparr>modelTurn = None, turnComplete = False, interrupted = False,
      inputTranscription = None, outputTranscription = None\<rparr>"

definition user_text_message :: "string \<Rightarrow> LiveServerMessage" where
  "user_text_message x =
     \<lparr>serverContent = Some (empty_content\<lparr>inputTranscription := Some (Transcription (Some x))\<rparr>)\<rparr>"

definition ai_text_message :: "string \<Rightarrow> LiveServerMessage" where
  "ai_text_message x =
     \<lparr>serverContent = Some (empty_content\<lparr>outputTranscription := Some (Transcription (Some x))\<rparr>)\<rparr>"

definition turn_complete_message :: LiveServerMessage where
  "turn_complete_message = \<lparr>serverContent = Some (empty_content\<lparr>turnComplete := True\<rparr>)\<rparr>"

definition audio_message :: "string \<Rightarrow> LiveServerMessage" where
  "audio_message a =
     \<lparr>serverContent = Some (empty_content
        \<lparr>modelTurn := Some (Content (Some [Part (Some (Blob (Some a)))]))\<rparr>)\<rparr>"

definition interrupted_message :: LiveServerMessage where
  "interrupted_message = \<lparr>serverContent = Some (empty_content\<lparr>interrupted := True\<rparr>)\<rparr>"


text \<open>Every resource reference of the call page is null.\<close>

definition released :: "call_state \<Rightarrow> bool" where
  "released s \<longleftrightarrow>
     streamRef s = None \<and> scriptProcessorRef s = None \<and> mediaStreamSourceRef s = None \<and>
     audioContextRef s = None \<and> outputAudioContextRef s = None \<and> sessionPromiseRef s = None"

section \<open>The codec: round trip\<close>

lemma le_words_le_bytes: "le_words (le_bytes w @ bs) = w # le_words bs"
  unfolding le_bytes_def
  apply simp
  apply (rule bit_word_eqI)
  apply (auto simp: bit_simps)
  done

lemma le_words_encodePcm: "le_words (encodePcm xs) = map encodeSample xs"
  by (induction xs) (simp_all add: encodePcm_def le_words_le_bytes)

lemma decode_encode: "decodePcm (encodePcm xs) = map (\<lambda>s. decodeSample (encodeSample s)) xs"
  by (simp add: decodePcm_def le_words_encodePcm)

lemma round_bounds:
  fixes s :: real
  assumes "-1 \<le> s" "s \<le> 1"
  shows "- 32767 \<le> round (s * 32767)" "round (s * 32767) \<le> 32767"
proof -
  have "round (-32767::real) \<le> round (s * 32767)" using assms by (intro round_mono) simp
  then show "- 32767 \<le> round (s * 32767)" by simp
  have "round (s * 32767) \<le> round (32767::real)" using assms by (intro round_mono) simp
  then show "round (s * 32767) \<le> 32767" by simp
qed

lemma sint_encode:
  assumes "-1 \<le> s" "s \<le> 1"
  shows "sint (encodeSample s) = round (s * 32767)"
proof -
  have c: "clamp s (-1) 1 = s" using assms by (simp add: clamp_def)
  show ?thesis
    unfolding encodeSample_def c
    using round_bounds[OF assms]
    by (simp add: sint_sbintrunc' signed_take_bit_int_eq_self)
qed

lemma roundtrip_sample:
  assumes "-1 \<le> s" "s \<le> 1"
  shows "\<bar>decodeSample (encodeSample s) - s\<bar> \<le> 3 / 65536"
proof -
  define q where "q = real_of_int (round (s * 32767))"
  have 1: "\<bar>q - s * 32767\<bar> \<le> 1/2"
    unfolding q_def using of_int_round_abs_le[of "s * 32767"] by simp
  have 2: "decodeSample (encodeSample s) = q / 32768"
    by (simp add: decodeSample_def sint_encode[OF assms] q_def)
  have 3: "\<bar>q - s * 32768\<bar> \<le> 3 / 2"
    using 1 assms by linarith
  have "q / 32768 - s = (q - s * 32768) / 32768" by simp
  then have "\<bar>q / 32768 - s\<bar> = \<bar>q - s * 32768\<bar> / 32768" by (simp only: abs_divide)
  then have "\<bar>q / 32768 - s\<bar> \<le> 3 / 65536"
    using 3 by simp
  then show ?thesis by (simp only: 2)
qed


text \<open>
  C3 (amended). Decoding the encoding of a sequence of samples, each in \<open>[-1,1]\<close>, gives
  a sequence of the same length, and each decoded sample differs from the original by
  at most \<open>3/65536\<close>, that is \<open>1.5/32768\<close>: half a step of rounding plus the difference
  between the scale of the encoder, 32767, and that of the decoder, 32768.
\<close>

theorem codec_roundtrip_bound:
  assumes "\<forall>x \<in> set samples. - 1 \<le> x \<and> x \<le> 1"
  shows "length (decodePcm (encodePcm samples)) = length samples \<and>
         (\<forall>i < length samples. \<bar>decodePcm (encodePcm samples) ! i - samples ! i\<bar> \<le> 3 / 65536)"
proof -
  have "\<bar>decodeSample (encodeSample (samples ! i)) - samples ! i\<bar> \<le> 3 / 65536"
    if "i < length samples" for i
  proof -
    have "samples ! i \<in> set samples" using that by simp
    with assms have "- 1 \<le> samples ! i" "samples ! i \<le> 1" by blast+
    then show ?thesis by (rule roundtrip_sample)
  qed
  then show ?thesis by (simp add: decode_encode del: abs_le_iff)
qed

theorem codec_roundtrip_bound_witness:
  "(- 1 \<le> (1 / 2 :: real) \<and> (1 / 2 :: real) \<le> 1) \<and>
   length (decodePcm (encodePcm [1 / 2, - 1])) = 2 \<and>
   \<bar>decodePcm (encodePcm [1 / 2, - 1]) ! 0 - 1 / 2\<bar> \<le> 3 / 65536 \<and>
   \<bar>decodePcm (encodePcm [1 / 2, - 1]) ! 1 - (- 1)\<bar> \<le> 3 / 65536"
proof -
  have h: "\<forall>x \<in> set [1 / 2, - 1 :: real]. - 1 \<le> x \<and> x \<le> 1" by simp
  note r = codec_roundtrip_bound [OF h]
  from r have l: "length (decodePcm (encodePcm [1 / 2, - 1])) = 2" by simp
  from r have a: "\<bar>decodePcm (encodePcm [1 / 2, - 1]) ! 0 - [1 / 2, - 1] ! 0\<bar> \<le> 3 / 65536"
    by (metis length_Cons zero_less_Suc)
  from r have b: "\<bar>decodePcm (encodePcm [1 / 2, - 1]) ! 1 - [1 / 2, - 1] ! 1\<bar> \<le> 3 / 65536"
    by (metis One_nat_def length_Cons Suc_less_eq zero_less_Suc)
  show ?thesis using l a b by simp
qed

text \<open>
  C3 as stated fails: the sample \<open>-262139/262144\<close> (a 32-bit float) is encoded as
  \<open>-32766\<close> and decoded as \<open>-32766/32768\<close>, at distance \<open>11/262144\<close> from the sample,
  more than \<open>1/32767\<close>.
\<close>

theorem codec_roundtrip_counterexample:
  "- 1 \<le> (- 262139 / 262144 :: real) \<and> (- 262139 / 262144 :: real) \<le> 1 \<and>
   \<not> \<bar>decodePcm (encodePcm [- 262139 / 262144]) ! 0 - (- 262139 / 262144)\<bar> \<le> 1 / 32767"
  by (simp add: decodePcm_def encodePcm_def le_bytes_def encodeSample_def clamp_def
      decodeSample_def round_def)

section \<open>Teardown and the failed start\<close>

lemma opt_call_fields [simp]:
  "callStatus (opt_call f r s) = callStatus s"
  "transcript (opt_call f r s) = transcript s"
  "errorMessage (opt_call f r s) = errorMessage s"
  "sessionPromiseRef (opt_call f r s) = sessionPromiseRef s"
  "streamRef (opt_call f r s) = streamRef s"
  "audioContextRef (opt_call f r s) = audioContextRef s"
  "outputAudioContextRef (opt_call f r s) = outputAudioContextRef s"
  "scriptProcessorRef (opt_call f r s) = scriptProcessorRef s"
  "mediaStreamSourceRef (opt_call f r s) = mediaStreamSourceRef s"
  "inputTranscriptionRef (opt_call f r s) = inputTranscriptionRef s"
  "outputTranscriptionRef (opt_call f r s) = outputTranscriptionRef s"
  "nextStartTimeRef (opt_call f r s) = nextStartTimeRef s"
  "audioSources (opt_call f r s) = audioSources s"
  "promises (opt_call f r s) = promises s"
  "fresh (opt_call f r s) = fresh s"
  by (simp_all add: opt_call_def emit_def split: option.splits)

lemma opt_call_None [simp]: "opt_call f None s = s"
  by (simp add: opt_call_def)

lemma cleanup_fields [simp]:
  "callStatus (cleanup s) = callStatus s"
  "transcript (cleanup s) = transcript s"
  "errorMessage (cleanup s) = errorMessage s"
  "inputTranscriptionRef (cleanup s) = inputTranscriptionRef s"
  "outputTranscriptionRef (cleanup s) = outputTranscriptionRef s"
  "nextStartTimeRef (cleanup s) = nextStartTimeRef s"
  "audioSources (cleanup s) = audioSources s"
  "promises (cleanup s) = promises s"
  "fresh (cleanup s) = fresh s"
  by (simp_all add: cleanup_def Let_def)

lemma cleanup_released [simp]: "released (cleanup s)"
  by (simp add: cleanup_def released_def Let_def)



lemma released_emit [simp]: "released (emit e s) = released s"
  by (simp add: released_def emit_def)

lemma released_status [simp]: "released (s\<lparr>callStatus := c\<rparr>) = released s"
  by (simp add: released_def)

lemma endCall_resume_Inr: "endCall_resume p st s = Inr (cleanup (emit (if st = Rejected then ConsoleError else SessionClose p) s))"
  by (simp add: endCall_resume_def await_session_def)

lemma endCall_total: "\<exists>s'. endCall s = Inr s' \<and> callStatus s' = ENDED"
  by (simp add: endCall_def endCall_resume_Inr Let_def emit_def split: option.splits promise_state.splits)



lemma run_continuations_released:
  "released s \<Longrightarrow> released (run_continuations p st ks s)"
  by (induction p st ks s rule: run_continuations.induct) (simp_all add: endCall_resume_Inr)

lemma run_continuations_EndCallResume:
  "EndCallResume \<in> set ks \<Longrightarrow> released (run_continuations p st ks s)"
  by (induction p st ks s rule: run_continuations.induct)
     (auto simp: endCall_resume_Inr run_continuations_released)

lemma run_continuations_status [simp]:
  "callStatus (run_continuations p st ks s) = callStatus s"
  by (induction p st ks s rule: run_continuations.induct) (simp_all add: endCall_resume_Inr emit_def)

lemma endCall_pending:
  assumes "sessionPromiseRef s = Some p" "p < length (promises s)" "settled (promises s ! p) = Pending"
    "st \<noteq> Pending" "endCall s = Inr s1"
  shows "released (settle p st s1) \<and> callStatus (settle p st s1) = ENDED"
proof -
  have s1: "s1 = s\<lparr>callStatus := ENDED, promises := (promises s)
                            [p := (promises s ! p)\<lparr>waiting := waiting (promises s ! p) @ [EndCallResume]\<rparr>]\<rparr>"
    using assms by (simp add: endCall_def)
  show ?thesis
    using assms(2-4) by (simp add: s1 settle_def run_continuations_EndCallResume)
qed

lemma startCall_denied:
  "startCall (Inl e) s = startCall_catch (emit GetUserMedia (startCall_begin s))"
  by (simp add: startCall_def startCall_resume_def startCall_suspend_def startCall_try_def)


lemma effects_cleanup:
  "effects (cleanup s) = effects s
     @ (case streamRef s of None \<Rightarrow> [] | Some x \<Rightarrow> [TrackStop x])
     @ (case scriptProcessorRef s of None \<Rightarrow> [] | Some x \<Rightarrow> [Disconnect x])
     @ (case mediaStreamSourceRef s of None \<Rightarrow> [] | Some x \<Rightarrow> [Disconnect x])
     @ (case audioContextRef s of None \<Rightarrow> [] | Some x \<Rightarrow> [ContextClose x])
     @ (case outputAudioContextRef s of None \<Rightarrow> [] | Some x \<Rightarrow> [ContextClose x])"
proof -
  have 1: "effects (opt_call f r t) = effects t @ (case r of None \<Rightarrow> [] | Some x \<Rightarrow> [f x])" for f r t
    by (simp add: opt_call_def emit_def split: option.splits)
  show ?thesis by (simp add: cleanup_def Let_def 1)
qed

lemma count_GetUserMedia_cleanup:
  "filter (\<lambda>x. x = GetUserMedia) (effects (cleanup s)) = filter (\<lambda>x. x = GetUserMedia) (effects s)"
  unfolding effects_cleanup by (simp split: option.splits)

lemma startCall_catch_fields:
  "callStatus (startCall_catch s) = ERROR"
  "transcript (startCall_catch s) = transcript s"
  "errorMessage (startCall_catch s) = Some ''Could not access microphone. Please check your browser permissions.''"
  "promises (startCall_catch s) = promises s"
  "released (startCall_catch s)"
  by (simp_all add: startCall_catch_def emit_def)

lemma startCall_catch_count:
  "filter (\<lambda>x. x = GetUserMedia) (effects (startCall_catch s)) = filter (\<lambda>x. x = GetUserMedia) (effects s)"
  by (simp add: startCall_catch_def count_GetUserMedia_cleanup emit_def)

lemma startCall_suspend_transcript:
  "transcript (startCall_suspend s) =
     [\<lparr>speaker = System,
       text' = ''Starting your Korean lesson... Please allow microphone access.''\<rparr>]"
  by (simp add: startCall_suspend_def startCall_begin_def emit_def)

lemma endCall_frame:
  assumes "endCall s = Inr s'"
  shows "transcript s' = transcript s"
    and "length (promises s') = length (promises s)"
    and "filter (\<lambda>x. x = GetUserMedia) (effects s') = filter (\<lambda>x. x = GetUserMedia) (effects s)"
    and "callStatus s' = ENDED"
  using assms
  by (auto simp: endCall_def endCall_resume_Inr Let_def emit_def count_GetUserMedia_cleanup
      split: option.splits promise_state.splits if_splits)

lemma step_EndCall_frame:
  "transcript (step dec EndCall s) = transcript s"
  "length (promises (step dec EndCall s)) = length (promises s)"
  "filter (\<lambda>x. x = GetUserMedia) (effects (step dec EndCall s))
     = filter (\<lambda>x. x = GetUserMedia) (effects s)"
  "callStatus (step dec EndCall s) = ENDED"
proof -
  obtain s' where s': "endCall s = Inr s'" using endCall_total [of s] by blast
  then have e: "step dec EndCall s = s'" by simp
  show "transcript (step dec EndCall s) = transcript s"
    "length (promises (step dec EndCall s)) = length (promises s)"
    "filter (\<lambda>x. x = GetUserMedia) (effects (step dec EndCall s))
       = filter (\<lambda>x. x = GetUserMedia) (effects s)"
    "callStatus (step dec EndCall s) = ENDED"
    unfolding e using endCall_frame [OF s'] by simp_all
qed

lemma run_EndCalls_frame:
  assumes "\<forall>ev \<in> set es. ev = EndCall"
  shows "transcript (run dec es s) = transcript s \<and>
         length (promises (run dec es s)) = length (promises s) \<and>
         filter (\<lambda>x. x = GetUserMedia) (effects (run dec es s))
           = filter (\<lambda>x. x = GetUserMedia) (effects s)"
  using assms
proof (induction es arbitrary: s)
  case Nil
  show ?case by simp
next
  case (Cons ev es)
  then have ev: "ev = EndCall" and es: "\<forall>ev \<in> set es. ev = EndCall" by simp_all
  from Cons.IH [OF es, of "step dec EndCall s"] show ?case
    by (simp add: ev step_EndCall_frame del: step.simps)
qed

lemma run_EndCalls_status:
  assumes "\<forall>ev \<in> set es. ev = EndCall" "es \<noteq> []"
  shows "callStatus (run dec es s) = ENDED"
  using assms
proof (induction es arbitrary: s)
  case Nil
  then show ?case by simp
next
  case (Cons ev es)
  then have ev: "ev = EndCall" and es: "\<forall>ev \<in> set es. ev = EndCall" by simp_all
  show ?case
  proof (cases "es = []")
    case True
    then show ?thesis by (simp add: ev step_EndCall_frame del: step.simps)
  next
    case False
    from Cons.IH [OF es False, of "step dec EndCall s"] show ?thesis
      by (simp add: ev del: step.simps)
  qed
qed

lemma startCall_resume_denied:
  "startCall_resume (Inl e) ctors s = startCall_catch s"
  by (simp add: startCall_resume_def startCall_try_def)

lemma startCall_catch_effects:
  "effects (startCall_catch s) =
     effects s @ [ConsoleError]
     @ (case streamRef s of None \<Rightarrow> [] | Some x \<Rightarrow> [TrackStop x])
     @ (case scriptProcessorRef s of None \<Rightarrow> [] | Some x \<Rightarrow> [Disconnect x])
     @ (case mediaStreamSourceRef s of None \<Rightarrow> [] | Some x \<Rightarrow> [Disconnect x])
     @ (case audioContextRef s of None \<Rightarrow> [] | Some x \<Rightarrow> [ContextClose x])
     @ (case outputAudioContextRef s of None \<Rightarrow> [] | Some x \<Rightarrow> [ContextClose x])"
  by (simp add: startCall_catch_def effects_cleanup emit_def)

lemma startCall_suspend_fields:
  "callStatus (startCall_suspend s) = CONNECTING"
  "promises (startCall_suspend s) = promises s"
  "effects (startCall_suspend s) = effects s @ [GetUserMedia]"
  "errorMessage (startCall_suspend s) = None"
  by (simp_all add: startCall_suspend_def startCall_begin_def emit_def)

text \<open>
  C7 (amended). \<open>startCall\<close> is invoked in status idle and \<open>getUserMedia\<close> fails. While
  the request is pending the page shows the End button, so any number of invocations of
  \<open>endCall\<close> may be handled in between. The status is connecting after the invocation
  and ended after each \<open>endCall\<close>; when there is none the status goes from idle to
  connecting to error. In every case, after the failure the status is error; the
  transcript is the single system message "Starting your Korean lesson..."; the error
  message is the one about the microphone and the browser permissions; the \<open>catch\<close>
  block has logged the error and called \<open>stop\<close>, \<open>disconnect\<close> or \<open>close\<close> on every
  resource held at that moment, and every resource reference is null; no session
  promise has been created and \<open>getUserMedia\<close> has been requested exactly once.
\<close>

theorem startCall_permission_denied:
  fixes dec :: "string \<Rightarrow> js_error + AudioBuffer" and s :: call_state and es :: "event list"
    and e :: js_error and ctors :: ctor_outcome
  assumes "callStatus s = IDLE" and "\<forall>ev \<in> set es. ev = EndCall"
  defines "s1 \<equiv> step dec StartCall s"
    and "s2 \<equiv> run dec es (step dec StartCall s)"
    and "s3 \<equiv> step dec (GetUserMediaSettled (Inl e) ctors) (run dec es (step dec StartCall s))"
  shows "callStatus s1 = CONNECTING \<and>
         (\<forall>k. 0 < k \<and> k \<le> length es \<longrightarrow> callStatus (run dec (take k es) s1) = ENDED) \<and>
         callStatus s3 = ERROR \<and>
         (es = [] \<longrightarrow> [callStatus s, callStatus s1, callStatus s2, callStatus s3]
                        = [IDLE, CONNECTING, CONNECTING, ERROR]) \<and>
         transcript s3 =
           [\<lparr>speaker = System,
             text' = ''Starting your Korean lesson... Please allow microphone access.''\<rparr>] \<and>
         errorMessage s3 =
           Some ''Could not access microphone. Please check your browser permissions.'' \<and>
         released s3 \<and>
         effects s3 =
           effects s2 @ [ConsoleError]
           @ (case streamRef s2 of None \<Rightarrow> [] | Some x \<Rightarrow> [TrackStop x])
           @ (case scriptProcessorRef s2 of None \<Rightarrow> [] | Some x \<Rightarrow> [Disconnect x])
           @ (case mediaStreamSourceRef s2 of None \<Rightarrow> [] | Some x \<Rightarrow> [Disconnect x])
           @ (case audioContextRef s2 of None \<Rightarrow> [] | Some x \<Rightarrow> [ContextClose x])
           @ (case outputAudioContextRef s2 of None \<Rightarrow> [] | Some x \<Rightarrow> [ContextClose x]) \<and>
         length (promises s3) = length (promises s) \<and>
         length (filter (\<lambda>x. x = GetUserMedia) (effects s3))
           = Suc (length (filter (\<lambda>x. x = GetUserMedia) (effects s)))"
proof -
  have s3: "s3 = startCall_catch s2"
    by (simp add: s3_def s2_def startCall_resume_denied)
  have s1: "s1 = startCall_suspend s" by (simp add: s1_def)
  have s2: "s2 = run dec es s1" by (simp add: s2_def s1_def)
  note r = run_EndCalls_frame [OF assms(2), of dec s1]
  have k: "callStatus (run dec (take k es) s1) = ENDED" if "0 < k" "k \<le> length es" for k
  proof -
    have "\<forall>ev \<in> set (take k es). ev = EndCall"
      using assms(2) by (meson in_set_takeD)
    moreover have "take k es \<noteq> []" using that by auto
    ultimately show ?thesis by (rule run_EndCalls_status)
  qed
  have "filter (\<lambda>x. x = GetUserMedia) (effects s3) = filter (\<lambda>x. x = GetUserMedia) (effects s2)"
    unfolding s3 by (rule startCall_catch_count)
  also have "\<dots> = filter (\<lambda>x. x = GetUserMedia) (effects s1)"
    unfolding s2 using r by simp
  also have "\<dots> = filter (\<lambda>x. x = GetUserMedia) (effects s) @ [GetUserMedia]"
    unfolding s1 by (simp add: startCall_suspend_fields)
  finally have g: "filter (\<lambda>x. x = GetUserMedia) (effects s3)
      = filter (\<lambda>x. x = GetUserMedia) (effects s) @ [GetUserMedia]" .
  have "transcript s3 = transcript s1"
    unfolding s3 s2 using r by (simp add: startCall_catch_fields)
  then have t: "transcript s3 = [\<lparr>speaker = System,
             text' = ''Starting your Korean lesson... Please allow microphone access.''\<rparr>]"
    by (simp add: s1 startCall_suspend_transcript)
  have "length (promises s3) = length (promises s1)"
    unfolding s3 s2 using r by (simp add: startCall_catch_fields)
  then have p: "length (promises s3) = length (promises s)"
    by (simp add: s1 startCall_suspend_fields)
  have c: "es = [] \<Longrightarrow> callStatus s2 = CONNECTING"
    unfolding s2 by (simp add: s1 startCall_suspend_fields)
  show ?thesis
    using assms(1) k g t p c
    by (simp add: s3 startCall_catch_fields startCall_catch_effects)
       (simp add: s1 startCall_suspend_fields)
qed

theorem startCall_permission_denied_witness:
  "callStatus initial_state = IDLE \<and>
   callStatus (run (\<lambda>a. Inl DecodeError) [StartCall] initial_state) = CONNECTING \<and>
   callStatus (run (\<lambda>a. Inl DecodeError)
      [StartCall, GetUserMediaSettled (Inl NotAllowedError) NoThrow] initial_state) = ERROR \<and>
   effects (run (\<lambda>a. Inl DecodeError)
      [StartCall, GetUserMediaSettled (Inl NotAllowedError) NoThrow] initial_state)
     = [GetUserMedia, ConsoleError] \<and>
   released (run (\<lambda>a. Inl DecodeError)
      [StartCall, GetUserMediaSettled (Inl NotAllowedError) NoThrow] initial_state) \<and>
   callStatus (run (\<lambda>a. Inl DecodeError)
      [StartCall, EndCall, GetUserMediaSettled (Inl NotAllowedError) NoThrow] initial_state) = ERROR \<and>
   callStatus (initial_state\<lparr>streamRef := Some 7\<rparr>) = IDLE \<and>
   effects (run (\<lambda>a. Inl DecodeError)
      [StartCall, GetUserMediaSettled (Inl NotAllowedError) NoThrow]
      (initial_state\<lparr>streamRef := Some 7\<rparr>))
     = [GetUserMedia, ConsoleError, TrackStop 7]"
proof -
  let ?dec = "\<lambda>a :: string. (Inl DecodeError :: js_error + AudioBuffer)"
  let ?fail = "GetUserMediaSettled (Inl NotAllowedError) NoThrow"
  let ?held = "initial_state\<lparr>streamRef := Some 7\<rparr>"
  have h: "callStatus initial_state = IDLE" "callStatus ?held = IDLE"
    by (simp_all add: initial_state_def)
  have n: "\<forall>ev \<in> set ([] :: event list). ev = EndCall" "\<forall>ev \<in> set [EndCall]. ev = EndCall"
    by simp_all
  note a = startCall_permission_denied [OF h(1) n(1), where dec = ?dec and e = NotAllowedError
      and ctors = NoThrow]
  note b = startCall_permission_denied [OF h(1) n(2), where dec = ?dec and e = NotAllowedError
      and ctors = NoThrow]
  note c = startCall_permission_denied [OF h(2) n(1), where dec = ?dec and e = NotAllowedError
      and ctors = NoThrow]
  have i: "effects (startCall_suspend initial_state) = [GetUserMedia]"
    "streamRef (startCall_suspend initial_state) = None"
    "scriptProcessorRef (startCall_suspend initial_state) = None"
    "mediaStreamSourceRef (startCall_suspend initial_state) = None"
    "audioContextRef (startCall_suspend initial_state) = None"
    "outputAudioContextRef (startCall_suspend initial_state) = None"
    by (simp_all add: startCall_suspend_def startCall_begin_def emit_def initial_state_def)
  have j: "effects (startCall_suspend ?held) = [GetUserMedia]"
    "streamRef (startCall_suspend ?held) = Some 7"
    "scriptProcessorRef (startCall_suspend ?held) = None"
    "mediaStreamSourceRef (startCall_suspend ?held) = None"
    "audioContextRef (startCall_suspend ?held) = None"
    "outputAudioContextRef (startCall_suspend ?held) = None"
    by (simp_all add: startCall_suspend_def startCall_begin_def emit_def initial_state_def)
  from a have 1: "callStatus (run ?dec [StartCall] initial_state) = CONNECTING"
    "callStatus (run ?dec [StartCall, ?fail] initial_state) = ERROR"
    "released (run ?dec [StartCall, ?fail] initial_state)"
    by simp_all
  from a have 2: "effects (run ?dec [StartCall, ?fail] initial_state) = [GetUserMedia, ConsoleError]"
    by (simp add: i)
  from b have 3: "callStatus (run ?dec [StartCall, EndCall, ?fail] initial_state) = ERROR"
    by simp
  from c have 4: "effects (run ?dec [StartCall, ?fail] ?held) = [GetUserMedia, ConsoleError, TrackStop 7]"
    by (simp add: j)
  from h 1 2 3 4 show ?thesis by blast
qed

text \<open>
  C7 as stated fails: when \<open>endCall\<close> is invoked while the permission request is
  pending, the status goes from idle to connecting to ended to error.
\<close>

theorem startCall_permission_denied_counterexample:
  "callStatus initial_state = IDLE \<and>
   callStatus (run (\<lambda>a. Inl DecodeError) [StartCall] initial_state) = CONNECTING \<and>
   callStatus (run (\<lambda>a. Inl DecodeError) [StartCall, EndCall] initial_state) = ENDED \<and>
   callStatus (run (\<lambda>a. Inl DecodeError)
      [StartCall, EndCall, GetUserMediaSettled (Inl NotAllowedError) NoThrow] initial_state) = ERROR"
  by (simp add: initial_state_def startCall_suspend_fields step_EndCall_frame
      startCall_resume_denied startCall_catch_fields del: step.simps)
     (simp add: startCall_suspend_fields step_EndCall_frame startCall_resume_denied
      startCall_catch_fields)

section \<open>The message handler and the playback scheduler\<close>

lemma schedulePlayback_fields [simp]:
  "callStatus (schedulePlayback t b s) = callStatus s"
  "transcript (schedulePlayback t b s) = transcript s"
  "errorMessage (schedulePlayback t b s) = errorMessage s"
  "sessionPromiseRef (schedulePlayback t b s) = sessionPromiseRef s"
  "streamRef (schedulePlayback t b s) = streamRef s"
  "audioContextRef (schedulePlayback t b s) = audioContextRef s"
  "outputAudioContextRef (schedulePlayback t b s) = outputAudioContextRef s"
  "scriptProcessorRef (schedulePlayback t b s) = scriptProcessorRef s"
  "mediaStreamSourceRef (schedulePlayback t b s) = mediaStreamSourceRef s"
  "inputTranscriptionRef (schedulePlayback t b s) = inputTranscriptionRef s"
  "outputTranscriptionRef (schedulePlayback t b s) = outputTranscriptionRef s"
  "promises (schedulePlayback t b s) = promises s"
  by (simp_all add: schedulePlayback_def Let_def emit_def)




lemma starts_append [simp]: "starts (xs @ ys) = starts xs @ starts ys"
  by (induction xs rule: starts.induct) simp_all

lemma starts_map_SourceStop [simp]: "starts (map SourceStop xs) = []"
  by (induction xs) simp_all

lemma stop_sources_eq:
  "stop_sources xs s =
     s\<lparr>audioSources := filter (\<lambda>x. x \<notin> set xs) (audioSources s),
       effects := effects s @ map SourceStop xs\<rparr>"
proof (induction xs arbitrary: s)
  case Nil
  show ?case by simp
next
  case (Cons x xs)
  have "filter (\<lambda>y. y \<notin> set xs) (removeAll x ys) = filter (\<lambda>y. y \<noteq> x \<and> y \<notin> set xs) ys" for ys :: "nat list"
    by (induction ys) auto
  then show ?case
    by (simp add: Cons.IH emit_def set_delete_def)
qed

lemma interrupt_eq:
  "interrupt s =
     s\<lparr>audioSources := [], nextStartTimeRef := 0,
       effects := effects s @ map SourceStop (audioSources s)\<rparr>"
  by (simp add: interrupt_def stop_sources_eq)

lemma accumulate_fields [simp]:
  "callStatus (accumulate m s) = callStatus s"
  "transcript (accumulate m s) = transcript s"
  "errorMessage (accumulate m s) = errorMessage s"
  "sessionPromiseRef (accumulate m s) = sessionPromiseRef s"
  "streamRef (accumulate m s) = streamRef s"
  "audioContextRef (accumulate m s) = audioContextRef s"
  "outputAudioContextRef (accumulate m s) = outputAudioContextRef s"
  "scriptProcessorRef (accumulate m s) = scriptProcessorRef s"
  "mediaStreamSourceRef (accumulate m s) = mediaStreamSourceRef s"
  "nextStartTimeRef (accumulate m s) = nextStartTimeRef s"
  "audioSources (accumulate m s) = audioSources s"
  "promises (accumulate m s) = promises s"
  "fresh (accumulate m s) = fresh s"
  "effects (accumulate m s) = effects s"
  by (simp_all add: accumulate_def Let_def split: option.splits)

lemma accumulate_texts:
  "inputTranscriptionRef (accumulate m s) = inputTranscriptionRef s @ input_delta m"
  "outputTranscriptionRef (accumulate m s) = outputTranscriptionRef s @ output_delta m"
  by (simp_all add: accumulate_def input_delta_def output_delta_def append_text_def Let_def
      split: option.splits)

lemma flushTurn_fields [simp]:
  "callStatus (flushTurn s) = callStatus s"
  "errorMessage (flushTurn s) = errorMessage s"
  "sessionPromiseRef (flushTurn s) = sessionPromiseRef s"
  "streamRef (flushTurn s) = streamRef s"
  "audioContextRef (flushTurn s) = audioContextRef s"
  "outputAudioContextRef (flushTurn s) = outputAudioContextRef s"
  "scriptProcessorRef (flushTurn s) = scriptProcessorRef s"
  "mediaStreamSourceRef (flushTurn s) = mediaStreamSourceRef s"
  "nextStartTimeRef (flushTurn s) = nextStartTimeRef s"
  "audioSources (flushTurn s) = audioSources s"
  "promises (flushTurn s) = promises s"
  "fresh (flushTurn s) = fresh s"
  "effects (flushTurn s) = effects s"
  "inputTranscriptionRef (flushTurn s) = []"
  "outputTranscriptionRef (flushTurn s) = []"
  by (simp_all add: flushTurn_def Let_def)

lemma flushTurn_transcript:
  "transcript (flushTurn s) =
     transcript s
     @ (if trim (inputTranscriptionRef s) \<noteq> []
        then [\<lparr>speaker = User, text' = trim (inputTranscriptionRef s)\<rparr>] else [])
     @ (if trim (outputTranscriptionRef s) \<noteq> []
        then [\<lparr>speaker = Ai, text' = trim (outputTranscriptionRef s)\<rparr>] else [])"
  by (simp add: flushTurn_def Let_def)

text \<open>The state of the handler after lines 153 to 173.\<close>

lemma onmessage_cases:
  "\<exists>s2. s2 = (if has_turnComplete m then flushTurn (accumulate m s) else accumulate m s) \<and>
     (snd (onmessage dec t m s) = s2 \<or> snd (onmessage dec t m s) = interrupt s2 \<or>
      (\<exists>b. snd (onmessage dec t m s) = schedulePlayback t b s2) \<or>
      (\<exists>b. snd (onmessage dec t m s) = interrupt (schedulePlayback t b s2)))"
  by (auto simp: onmessage_def Let_def has_turnComplete_def split: sum.splits option.splits)

lemma onmessage_texts:
  "inputTranscriptionRef (snd (onmessage dec t m s)) =
     (if has_turnComplete m then [] else inputTranscriptionRef s @ input_delta m)"
  "outputTranscriptionRef (snd (onmessage dec t m s)) =
     (if has_turnComplete m then [] else outputTranscriptionRef s @ output_delta m)"
  "transcript (snd (onmessage dec t m s)) =
     (if has_turnComplete m then transcript (flushTurn (accumulate m s)) else transcript s)"
  using onmessage_cases[of m s dec t]
  by (auto simp: interrupt_eq accumulate_texts)




lemma fragments_Nil [simp]: "fragments dec [] = []"
  by (simp add: fragments_def List.map_filter_simps)


lemma length_schedule_times [simp]: "length (schedule_times c fs) = length fs"
  by (induction c fs rule: schedule_times.induct) simp_all




lemma example_messages [simp]:
  "has_interrupted (audio_message a) = False"
  "has_interrupted interrupted_message = True"
  "has_interrupted turn_complete_message = False"
  "has_interrupted (user_text_message x) = False"
  "has_interrupted (ai_text_message x) = False"
  "has_turnComplete (audio_message a) = False"
  "has_turnComplete interrupted_message = False"
  "has_turnComplete turn_complete_message = True"
  "has_turnComplete (user_text_message x) = False"
  "has_turnComplete (ai_text_message x) = False"
  "base64Audio (audio_message a) = Inr (Some a)"
  "base64Audio interrupted_message = Inr None"
  "base64Audio turn_complete_message = Inr None"
  "base64Audio (user_text_message x) = Inr None"
  "base64Audio (ai_text_message x) = Inr None"
  "input_delta (user_text_message x) = x"
  "input_delta (ai_text_message x) = []"
  "input_delta turn_complete_message = []"
  "input_delta interrupted_message = []"
  "input_delta (audio_message a) = []"
  "output_delta (ai_text_message x) = x"
  "output_delta (user_text_message x) = []"
  "output_delta turn_complete_message = []"
  "output_delta interrupted_message = []"
  "output_delta (audio_message a) = []"
  by (simp_all add: has_interrupted_def has_turnComplete_def base64Audio_def input_delta_def
      output_delta_def append_text_def audio_message_def interrupted_message_def
      turn_complete_message_def user_text_message_def ai_text_message_def empty_content_def)

lemma startCall_granted:
  "startCall (Inr stream) s =
     (startCall_begin s)\<lparr>streamRef := Some stream,
        audioContextRef := Some (fresh s),
        outputAudioContextRef := Some (fresh s + 1),
        sessionPromiseRef := Some (length (promises s)),
        promises := promises s @ [\<lparr>settled = Pending, waiting = []\<rparr>],
        fresh := fresh s + 2,
        effects := effects s @ [GetUserMedia]\<rparr>"
  by (simp add: startCall_def startCall_resume_def startCall_suspend_def startCall_try_def
      startCall_begin_def emit_def Let_def)

lemma startCall_resume_suspend:
  "startCall_resume gum NoThrow (startCall_suspend s) = startCall gum s"
  by (simp add: startCall_def)



section \<open>Interruption and the end of a turn\<close>


lemma onmessage_interrupted_message:
  "onmessage dec t interrupted_message s = (None, interrupt s)"
  by (simp add: onmessage_def Let_def interrupted_message_def empty_content_def base64Audio_def
      accumulate_def)

lemma run_partial_messages:
  assumes "\<forall>tm \<in> set ms. \<not> has_turnComplete (snd tm)"
  shows "transcript (run dec (messages ms) s) = transcript s"
    and "inputTranscriptionRef (run dec (messages ms) s)
           = inputTranscriptionRef s @ concat (map (\<lambda>tm. input_delta (snd tm)) ms)"
    and "outputTranscriptionRef (run dec (messages ms) s)
           = outputTranscriptionRef s @ concat (map (\<lambda>tm. output_delta (snd tm)) ms)"
  using assms
  by (induction ms arbitrary: s) (simp_all add: messages_def onmessage_texts)

lemma run_append: "run dec (es @ es') s = run dec es' (run dec es s)"
  by (induction es arbitrary: s) simp_all

lemma onmessage_audio_message:
  assumes "outputAudioContextRef s \<noteq> None" "a \<noteq> []" "dec a = Inr b"
  shows "onmessage dec t (audio_message a) s = (None, schedulePlayback t b s)"
  using assms
  by (simp add: onmessage_def Let_def audio_message_def empty_content_def base64Audio_def
      accumulate_def)

lemma onmessage_user_text_message:
  "onmessage dec t (user_text_message x) s =
     (None, s\<lparr>inputTranscriptionRef := inputTranscriptionRef s @ x\<rparr>)"
  by (simp add: onmessage_def Let_def user_text_message_def empty_content_def base64Audio_def
      accumulate_def append_text_def)

lemma onmessage_ai_text_message:
  "onmessage dec t (ai_text_message x) s =
     (None, s\<lparr>outputTranscriptionRef := outputTranscriptionRef s @ x\<rparr>)"
  by (simp add: onmessage_def Let_def ai_text_message_def empty_content_def base64Audio_def
      accumulate_def append_text_def)

lemma onmessage_turn_complete_message:
  "onmessage dec t turn_complete_message s = (None, flushTurn s)"
  by (simp add: onmessage_def Let_def turn_complete_message_def empty_content_def base64Audio_def
      accumulate_def)

lemma is_white_space_simps [simp]:
  "is_white_space (CHR '' '') = True"
  "is_white_space (CHR ''h'') = False"
  "is_white_space (CHR ''i'') = False"
  "is_white_space (CHR ''o'') = False"
  "is_white_space (CHR ''e'') = False"
  by (simp_all add: is_white_space_def)

lemma trim_examples:
  "trim '' '' = []" "trim ''hi'' = ''hi''" "trim ''hello'' = ''hello''" "trim [] = []"
  "trim ''hi there'' = ''hi there''"
  by (simp_all add: trim_def)

lemma connected_state:
  "run dec [StartCall, GetUserMediaSettled (Inr 0) NoThrow, Open 0] initial_state =
     initial_state\<lparr>callStatus := ACTIVE,
       transcript :=
         [\<lparr>speaker = System,
           text' = ''Starting your Korean lesson... Please allow microphone access.''\<rparr>,
          \<lparr>speaker = System,
           text' = ''Connection successful! You can start speaking now.''\<rparr>],
       sessionPromiseRef := Some 0, streamRef := Some 0,
       audioContextRef := Some 0, outputAudioContextRef := Some 1,
       scriptProcessorRef := Some 3, mediaStreamSourceRef := Some 2,
       promises := [\<lparr>settled = Pending, waiting = []\<rparr>],
       fresh := 4, effects := [GetUserMedia]\<rparr>"
  by (simp add: startCall_resume_suspend startCall_granted startCall_begin_def onopen_def Let_def
      initial_state_def)



text \<open>
  C9. The interruption branch changes the set of active sources, the cursor and the log
  of calls on source nodes (the \<open>stop\<close> calls) and nothing else; a message with only the
  interruption flag does just this. The accumulators of user and AI text and the
  transcript are as before, the transcript after any later message is the same as
  without the interruption, and the AI text accumulated before the interruption, when
  its trimmed form is not empty, is in the transcript after the next end of turn.
\<close>

theorem interrupt_frame:
  "interrupt s =
     s\<lparr>audioSources := [], nextStartTimeRef := 0,
       effects := effects s @ map SourceStop (audioSources s)\<rparr> \<and>
   snd (onmessage dec t interrupted_message s) = interrupt s \<and>
   inputTranscriptionRef (interrupt s) = inputTranscriptionRef s \<and>
   outputTranscriptionRef (interrupt s) = outputTranscriptionRef s \<and>
   transcript (interrupt s) = transcript s \<and>
   transcript (snd (onmessage dec t' m (interrupt s))) = transcript (snd (onmessage dec t' m s)) \<and>
   (has_turnComplete m \<and> trim (outputTranscriptionRef s @ output_delta m) \<noteq> [] \<longrightarrow>
      \<lparr>speaker = Ai, text' = trim (outputTranscriptionRef s @ output_delta m)\<rparr>
        \<in> set (transcript (snd (onmessage dec t' m (interrupt s)))))"
proof -
  have 1: "transcript (snd (onmessage dec t' m (interrupt s))) = transcript (snd (onmessage dec t' m s))"
    by (simp add: onmessage_texts flushTurn_transcript accumulate_texts interrupt_eq)
  have 2: "\<lparr>speaker = Ai, text' = trim (outputTranscriptionRef s @ output_delta m)\<rparr>
        \<in> set (transcript (snd (onmessage dec t' m s)))"
    if "has_turnComplete m" "trim (outputTranscriptionRef s @ output_delta m) \<noteq> []"
    using that by (simp add: onmessage_texts flushTurn_transcript accumulate_texts)
  show ?thesis
    using 1 2 by (simp add: onmessage_interrupted_message) (simp add: interrupt_eq)
qed

theorem interrupt_frame_witness:
  "has_turnComplete turn_complete_message \<and>
   outputTranscriptionRef (run (\<lambda>a. Inl DecodeError)
      ([StartCall, GetUserMediaSettled (Inr 0) NoThrow, Open 0] @ messages [(0, ai_text_message ''hi'')]) initial_state) = ''hi'' \<and>
   trim (''hi'' @ output_delta turn_complete_message) = ''hi'' \<and>
   \<lparr>speaker = Ai, text' = ''hi''\<rparr> \<in> set (transcript (snd (onmessage (\<lambda>a. Inl DecodeError) 1
      turn_complete_message
      (interrupt (run (\<lambda>a. Inl DecodeError)
        ([StartCall, GetUserMediaSettled (Inr 0) NoThrow, Open 0] @ messages [(0, ai_text_message ''hi'')]) initial_state)))))"
proof -
  let ?dec = "\<lambda>a :: string. (Inl DecodeError :: js_error + AudioBuffer)"
  let ?s = "run ?dec ([StartCall, GetUserMediaSettled (Inr 0) NoThrow, Open 0] @ messages [(0, ai_text_message ''hi'')])
              initial_state"
  have o: "outputTranscriptionRef ?s = ''hi''"
    unfolding run_append connected_state
    by (simp add: messages_def onmessage_ai_text_message initial_state_def)
  have h: "has_turnComplete turn_complete_message" by simp
  have t: "trim (outputTranscriptionRef ?s @ output_delta turn_complete_message) = ''hi''"
    unfolding o by (simp add: trim_examples)
  note f = interrupt_frame [of ?s ?dec 0 1 turn_complete_message]
  from f h t have "\<lparr>speaker = Ai, text' = ''hi''\<rparr> \<in> set (transcript (snd (onmessage ?dec 1
      turn_complete_message (interrupt ?s))))"
    by (metis list.discI)
  then show ?thesis using o h t by (simp add: trim_examples)
qed

text \<open>
  C4 (amended). For every sequence of messages without an end of turn, followed by a
  message with the end of turn, the transcript afterwards is the transcript before,
  then one user entry with the trimmed accumulated user text if the trimmed text is not
  empty, then one AI entry with the trimmed accumulated AI text if the trimmed text is
  not empty; no entry is added for a text that is empty once trimmed; both
  accumulators are empty afterwards. The accumulated text of a speaker is the text held
  before followed by the pieces of the messages, in the order of arrival.
\<close>

theorem turn_complete_flush:
  fixes dec :: "string \<Rightarrow> js_error + AudioBuffer"
    and ms :: "(real \<times> LiveServerMessage) list" and s :: call_state
    and m :: LiveServerMessage and t :: real
  assumes "\<forall>tm \<in> set ms. \<not> has_turnComplete (snd tm)" and "has_turnComplete m"
  defines "s' \<equiv> run dec (messages (ms @ [(t, m)])) s"
    and "userText \<equiv> trim (inputTranscriptionRef s
                         @ concat (map (\<lambda>tm. input_delta (snd tm)) ms) @ input_delta m)"
    and "aiText \<equiv> trim (outputTranscriptionRef s
                       @ concat (map (\<lambda>tm. output_delta (snd tm)) ms) @ output_delta m)"
  shows "transcript s' =
           transcript s
           @ (if userText \<noteq> [] then [\<lparr>speaker = User, text' = userText\<rparr>] else [])
           @ (if aiText \<noteq> [] then [\<lparr>speaker = Ai, text' = aiText\<rparr>] else []) \<and>
         inputTranscriptionRef s' = [] \<and> outputTranscriptionRef s' = []"
proof -
  have s': "s' = snd (onmessage dec t m (run dec (messages ms) s))"
    by (simp add: s'_def messages_def run_append)
  show ?thesis
    unfolding s' userText_def aiText_def
    using assms(2)
    by (simp add: onmessage_texts flushTurn_transcript accumulate_texts
        run_partial_messages [OF assms(1)])
qed

theorem turn_complete_flush_witness:
  "\<not> has_turnComplete (user_text_message ''hello'') \<and>
   \<not> has_turnComplete (ai_text_message ''hi there'') \<and>
   has_turnComplete turn_complete_message \<and>
   transcript (run (\<lambda>a. Inl DecodeError)
      (messages ([(0, ai_text_message ''hi there''), (0, user_text_message ''hello'')]
                 @ [(0, turn_complete_message)]))
      (run (\<lambda>a. Inl DecodeError) [StartCall, GetUserMediaSettled (Inr 0) NoThrow, Open 0] initial_state))
   = [\<lparr>speaker = System,
       text' = ''Starting your Korean lesson... Please allow microphone access.''\<rparr>,
      \<lparr>speaker = System, text' = ''Connection successful! You can start speaking now.''\<rparr>,
      \<lparr>speaker = User, text' = ''hello''\<rparr>,
      \<lparr>speaker = Ai, text' = ''hi there''\<rparr>]"
proof -
  let ?dec = "\<lambda>a :: string. (Inl DecodeError :: js_error + AudioBuffer)"
  let ?ms = "[(0 :: real, ai_text_message ''hi there''), (0, user_text_message ''hello'')]"
  have h1: "\<forall>tm \<in> set ?ms. \<not> has_turnComplete (snd tm)" by simp
  have h2: "has_turnComplete turn_complete_message" by simp
  note f = turn_complete_flush [OF h1 h2, of ?dec 0 "run ?dec [StartCall, GetUserMediaSettled (Inr 0) NoThrow, Open 0] initial_state"]
  have i: "inputTranscriptionRef (run ?dec [StartCall, GetUserMediaSettled (Inr 0) NoThrow, Open 0] initial_state) = []"
    "outputTranscriptionRef (run ?dec [StartCall, GetUserMediaSettled (Inr 0) NoThrow, Open 0] initial_state) = []"
    "transcript (run ?dec [StartCall, GetUserMediaSettled (Inr 0) NoThrow, Open 0] initial_state) =
       [\<lparr>speaker = System,
       text' = ''Starting your Korean lesson... Please allow microphone access.''\<rparr>,
      \<lparr>speaker = System, text' = ''Connection successful! You can start speaking now.''\<rparr>]"
    unfolding connected_state by (simp_all add: initial_state_def)
  have w: "is_white_space CHR ''l'' = False" "is_white_space CHR ''t'' = False"
     "is_white_space CHR ''r'' = False"
    by (simp_all add: is_white_space_def)
  from f show ?thesis
    unfolding i by (simp add: trim_def w)
qed

text \<open>
  C4 as stated fails: after a piece of user transcription that is a single space the
  accumulator of the user is not empty, and the end of the turn adds no entry to the
  transcript.
\<close>

theorem turn_complete_flush_counterexample:
  "inputTranscriptionRef (run (\<lambda>a. Inl DecodeError)
      ([StartCall, GetUserMediaSettled (Inr 0) NoThrow, Open 0] @ messages [(0, user_text_message '' '')]) initial_state) = '' '' \<and>
   transcript (run (\<lambda>a. Inl DecodeError)
      ([StartCall, GetUserMediaSettled (Inr 0) NoThrow, Open 0] @ messages [(0, user_text_message '' ''), (0, turn_complete_message)])
      initial_state)
   = transcript (run (\<lambda>a. Inl DecodeError) [StartCall, GetUserMediaSettled (Inr 0) NoThrow, Open 0] initial_state)"
  unfolding run_append connected_state
  by (simp add: messages_def onmessage_user_text_message onmessage_turn_complete_message
      flushTurn_transcript initial_state_def trim_examples)

section \<open>Ending a call\<close>

lemma run_continuations_promises [simp]:
  "promises (run_continuations p st ks s) = promises s"
  by (induction p st ks s rule: run_continuations.induct)
     (simp_all add: endCall_resume_Inr emit_def)

lemma onmessage_promises [simp]: "promises (snd (onmessage dec t m s)) = promises s"
  using onmessage_cases [of m s dec t] by (auto simp: interrupt_eq)










lemma settle_status [simp]: "callStatus (settle p st s) = callStatus s"
  by (simp add: settle_def)







section \<open>Capture buffers and the session promise\<close>

lemma effects_emit [simp]: "effects (emit e s) = effects s @ [e]"
  by (simp add: emit_def)







section \<open>The transcript\<close>

lemma run_continuations_transcript [simp]:
  "transcript (run_continuations p st ks s) = transcript s"
  by (induction p st ks s rule: run_continuations.induct)
     (simp_all add: endCall_resume_Inr emit_def)

lemma settle_transcript [simp]: "transcript (settle p st s) = transcript s"
  by (simp add: settle_def)

lemma endCall_transcript: "endCall s = Inr s' \<Longrightarrow> transcript s' = transcript s"
  by (auto simp: endCall_def endCall_resume_Inr Let_def emit_def
      split: option.splits promise_state.splits if_splits)

lemma onaudioprocess_transcript [simp]: "transcript (onaudioprocess d s) = transcript s"
  by (simp add: onaudioprocess_def Let_def emit_def split: option.splits promise_state.splits)

lemma startCall_try_transcript: "transcript (snd (startCall_try gum ctors s)) = transcript s"
  by (simp add: startCall_try_def Let_def split: sum.splits)

lemma startCall_resume_transcript [simp]:
  "transcript (startCall_resume gum ctors s) = transcript s"
  using startCall_try_transcript [of gum ctors s]
  by (cases "startCall_try gum ctors s")
     (auto simp: startCall_resume_def startCall_catch_fields split: option.splits)

lemma startCall_transcript:
  "transcript (startCall gum s) =
     [\<lparr>speaker = System,
       text' = ''Starting your Korean lesson... Please allow microphone access.''\<rparr>]"
  by (cases gum)
     (simp_all add: startCall_denied startCall_catch_fields startCall_granted emit_def
        startCall_begin_def)

lemma step_transcript_prefix:
  "\<not> is_StartCall e \<Longrightarrow> prefix (transcript s) (transcript (step dec e s))"
proof (cases e)
  case EndCall
  obtain s' where "endCall s = Inr s'" using endCall_total [of s] by blast
  then show ?thesis using EndCall endCall_transcript by simp
next
  case (Message t m)
  then show ?thesis by (simp add: onmessage_texts flushTurn_transcript)
qed (simp_all add: onopen_def Let_def onerror_def onclose_def onended_def emit_def
      split: option.splits)

lemma run_transcript_prefix:
  "\<forall>e \<in> set es. \<not> is_StartCall e \<Longrightarrow> prefix (transcript s) (transcript (run dec es s))"
proof (induction es arbitrary: s)
  case Nil
  show ?case by simp
next
  case (Cons e es)
  have "prefix (transcript s) (transcript (step dec e s))"
    using Cons.prems by (simp add: step_transcript_prefix)
  moreover have "prefix (transcript (step dec e s)) (transcript (run dec es (step dec e s)))"
    using Cons.prems by (intro Cons.IH) simp
  ultimately show ?case by (simp add: prefix_order.order_trans)
qed

lemma one_turn_transcript:
  "transcript (run dec ([StartCall, GetUserMediaSettled (Inr 0) NoThrow, Open 0]
       @ messages [(0, user_text_message ''hello''), (0, turn_complete_message)]) initial_state)
   = [\<lparr>speaker = System,
       text' = ''Starting your Korean lesson... Please allow microphone access.''\<rparr>,
      \<lparr>speaker = System, text' = ''Connection successful! You can start speaking now.''\<rparr>,
      \<lparr>speaker = User, text' = ''hello''\<rparr>]"
  unfolding run_append connected_state
  by (simp add: messages_def onmessage_user_text_message onmessage_turn_complete_message
      flushTurn_transcript initial_state_def trim_examples)

text \<open>
  C8 (amended). Every event other than \<open>startCall\<close> (a message, the end of a turn, the
  opening, an error or the close of the session, \<open>endCall\<close>, a capture buffer, the end
  of a source, the settling of the promise) keeps the transcript it finds as a prefix
  of the transcript it leaves, and so does every sequence of such events (the rest of
  \<open>startCall\<close> after \<open>getUserMedia\<close> has settled among them); the error handler leaves
  the transcript as it is. The invocation of \<open>startCall\<close> replaces the transcript by the
  single message "Starting your Korean lesson...".
\<close>

theorem transcript_append_only:
  "(\<not> is_StartCall e \<longrightarrow> prefix (transcript s) (transcript (step dec e s))) \<and>
   ((\<forall>e \<in> set es. \<not> is_StartCall e) \<longrightarrow> prefix (transcript s) (transcript (run dec es s))) \<and>
   transcript (onerror msg s) = transcript s \<and>
   transcript (startCall gum s) =
     [\<lparr>speaker = System,
       text' = ''Starting your Korean lesson... Please allow microphone access.''\<rparr>] \<and>
   transcript (step dec StartCall s) =
     [\<lparr>speaker = System,
       text' = ''Starting your Korean lesson... Please allow microphone access.''\<rparr>]"
  using step_transcript_prefix [of e s dec] run_transcript_prefix [of es s dec]
  by (simp add: startCall_transcript startCall_suspend_transcript onerror_def emit_def)

theorem transcript_append_only_witness:
  "\<not> is_StartCall (SessionError ''network'') \<and> \<not> is_StartCall Close \<and> \<not> is_StartCall EndCall \<and>
   \<lparr>speaker = User, text' = ''hello''\<rparr> \<in> set (transcript
      (run (\<lambda>a. Inl DecodeError) [SessionError ''network'', Close, EndCall]
        (run (\<lambda>a. Inl DecodeError) ([StartCall, GetUserMediaSettled (Inr 0) NoThrow, Open 0]
           @ messages [(0, user_text_message ''hello''), (0, turn_complete_message)])
           initial_state)))"
proof -
  let ?dec = "\<lambda>a :: string. (Inl DecodeError :: js_error + AudioBuffer)"
  let ?s = "run ?dec ([StartCall, GetUserMediaSettled (Inr 0) NoThrow, Open 0]
           @ messages [(0, user_text_message ''hello''), (0, turn_complete_message)]) initial_state"
  let ?es = "[SessionError ''network'', Close, EndCall]"
  have h: "\<forall>e \<in> set ?es. \<not> is_StartCall e" by simp
  from transcript_append_only [where es = ?es and s = ?s and dec = ?dec] h
  have "prefix (transcript ?s) (transcript (run ?dec ?es ?s))" by blast
  then have "set (transcript ?s) \<subseteq> set (transcript (run ?dec ?es ?s))"
    by (rule set_mono_prefix)
  moreover have "\<lparr>speaker = User, text' = ''hello''\<rparr> \<in> set (transcript ?s)"
    by (simp only: one_turn_transcript) simp
  ultimately have "\<lparr>speaker = User, text' = ''hello''\<rparr> \<in> set (transcript (run ?dec ?es ?s))"
    by blast
  then show ?thesis by simp
qed

text \<open>
  C8 as stated fails: \<open>startCall\<close> removes the entries of the call before. After one
  turn the transcript holds the user message; after the session closes and a new call
  is started it does not.
\<close>

theorem transcript_append_only_counterexample:
  "\<lparr>speaker = User, text' = ''hello''\<rparr> \<in> set (transcript
      (run (\<lambda>a. Inl DecodeError) ([StartCall, GetUserMediaSettled (Inr 0) NoThrow, Open 0]
           @ messages [(0, user_text_message ''hello''), (0, turn_complete_message)])
           initial_state)) \<and>
   \<lparr>speaker = User, text' = ''hello''\<rparr> \<notin> set (transcript
      (run (\<lambda>a. Inl DecodeError) [Close, StartCall]
        (run (\<lambda>a. Inl DecodeError) ([StartCall, GetUserMediaSettled (Inr 0) NoThrow, Open 0]
           @ messages [(0, user_text_message ''hello''), (0, turn_complete_message)])
           initial_state)))"
proof -
  let ?dec = "\<lambda>a :: string. (Inl DecodeError :: js_error + AudioBuffer)"
  let ?s = "run ?dec ([StartCall, GetUserMediaSettled (Inr 0) NoThrow, Open 0]
           @ messages [(0, user_text_message ''hello''), (0, turn_complete_message)]) initial_state"
  have 1: "\<lparr>speaker = User, text' = ''hello''\<rparr> \<in> set (transcript ?s)"
    by (simp only: one_turn_transcript) simp
  have "run ?dec [Close, StartCall] ?s = startCall_suspend (onclose ?s)"
    by (simp only: run.simps step.simps)
  then have 2: "\<lparr>speaker = User, text' = ''hello''\<rparr>
      \<notin> set (transcript (run ?dec [Close, StartCall] ?s))"
    by (simp only: startCall_suspend_transcript) simp
  from 1 2 show ?thesis by blast
qed

section \<open>The subscription gate\<close>

lemma SubscriptionPage_onSelect:
  "i < length plans \<Longrightarrow> onSelect (SubscriptionPage onSubscribe ! i) = onSubscribe"
  by (simp add: SubscriptionPage_def)

lemma length_plans [simp]: "length plans = 3"
  by (simp add: plans_def)

lemma choosePlan_step:
  assumes "\<not> isSubscribed s" "i < 3"
  shows "app_step dec (ChoosePlan i) s = mount (handleSubscribe s)"
  using assms by (simp add: App_def SubscriptionPage_onSelect) (simp add: SubscriptionPage_def)

text \<open>
  C10. Every plan card is given the same callback \<open>onSubscribe\<close>, which takes no plan.
  From a state that is not subscribed, choosing any of the three plans gives the same
  state, with \<open>isSubscribed\<close> true and the call page shown, and every sequence of later
  events leads to the same state whichever plan was chosen.
\<close>

theorem plan_choice_noninterference:
  "(\<forall>i < length plans. onSelect (SubscriptionPage onSubscribe ! i) = onSubscribe) \<and>
   length (SubscriptionPage onSubscribe) = 3 \<and>
   (\<not> isSubscribed s \<and> i < 3 \<and> j < 3 \<longrightarrow>
      app_step dec (ChoosePlan i) s = app_step dec (ChoosePlan j) s \<and>
      app_step dec (ChoosePlan i) s = mount (handleSubscribe s) \<and>
      isSubscribed (app_step dec (ChoosePlan i) s) \<and>
      App (app_step dec (ChoosePlan i) s) = CallPageView \<and>
      app_run dec (ChoosePlan i # es) s = app_run dec (ChoosePlan j # es) s)"
proof -
  have "isSubscribed (mount (handleSubscribe s))"
    by (simp add: mount_def handleSubscribe_def)
  then show ?thesis
    by (simp add: SubscriptionPage_onSelect choosePlan_step App_def) (simp add: SubscriptionPage_def)
qed

theorem plan_choice_noninterference_witness:
  "\<not> isSubscribed initial_app \<and> (0 :: nat) < 3 \<and> (2 :: nat) < 3 \<and>
   app_step (\<lambda>a. Inl DecodeError) (ChoosePlan 0) initial_app
     = \<lparr>isSubscribed = True, callPage = Some initial_state\<rparr> \<and>
   app_step (\<lambda>a. Inl DecodeError) (ChoosePlan 2) initial_app
     = \<lparr>isSubscribed = True, callPage = Some initial_state\<rparr> \<and>
   app_run (\<lambda>a. Inl DecodeError) [ChoosePlan 0, CallEvent StartCall] initial_app
     = app_run (\<lambda>a. Inl DecodeError) [ChoosePlan 2, CallEvent StartCall] initial_app"
proof -
  let ?dec = "\<lambda>a :: string. (Inl DecodeError :: js_error + AudioBuffer)"
  have h: "\<not> isSubscribed initial_app" by (simp add: initial_app_def)
  have m: "mount (handleSubscribe initial_app) = \<lparr>isSubscribed = True, callPage = Some initial_state\<rparr>"
    by (simp add: mount_def handleSubscribe_def initial_app_def)
  have n: "(0 :: nat) < 3" "(2 :: nat) < 3" by simp_all
  note t = plan_choice_noninterference [where s = initial_app and i = 0 and j = 2 and dec = ?dec
      and es = "[CallEvent StartCall]" and onSubscribe = handleSubscribe]
  from t h n have 1: "app_step ?dec (ChoosePlan 0) initial_app = mount (handleSubscribe initial_app)"
    by blast
  from t h n have 2: "app_step ?dec (ChoosePlan 0) initial_app = app_step ?dec (ChoosePlan 2) initial_app"
    by blast
  from t h n have 3: "app_run ?dec [ChoosePlan 0, CallEvent StartCall] initial_app
     = app_run ?dec [ChoosePlan 2, CallEvent StartCall] initial_app"
    by blast
  from 1 2 m have "app_step ?dec (ChoosePlan 0) initial_app = \<lparr>isSubscribed = True, callPage = Some initial_state\<rparr>"
    "app_step ?dec (ChoosePlan 2) initial_app = \<lparr>isSubscribed = True, callPage = Some initial_state\<rparr>"
    by (simp_all only:)
  with h 3 n show ?thesis by blast
qed

end
